theory Spec2Isabelle
  imports Main "HOL-Library.AList"
begin

section \<open>The MCP-CMake server: session state and the health gate\<close>

text \<open>
  A shallow embedding of \<^verbatim>\<open>src/mcp_cmake/server.py\<close>. The module keeps two globals,
  \<^verbatim>\<open>IS_HEALTHY\<close> and \<^verbatim>\<open>WORKING_DIRECTORY\<close>; the tool \<^verbatim>\<open>health_check\<close> writes them
  through \<^verbatim>\<open>update_state\<close>, and the four other tools are wrapped by the decorator
  \<^verbatim>\<open>tool_guard\<close>, which reads them. The globals become a record that every function
  takes and returns. The modules \<^verbatim>\<open>core\<close> and \<^verbatim>\<open>models\<close> are imported by the
  server but are not part of the sources at hand: the functions of \<^verbatim>\<open>core\<close> are a
  parameter of the model, and each of their invocations is recorded in the state.
\<close>

subsection \<open>Python values\<close>

text \<open>
  The values that cross the tool boundary: \<^verbatim>\<open>None\<close>, booleans, integers, strings,
  lists and dictionaries with string keys (a dictionary keeps its insertion order, so it
  is an association list), and opaque objects such as the request \<^verbatim>\<open>Context\<close>, which
  the server only passes around.
\<close>

datatype pyval =
    PyNone
  | PyBool bool
  | PyInt int
  | PyStr string
  | PyList "pyval list"
  | PyDict "(string \<times> pyval) list"
  | PyObj nat

text \<open>Python's truth test, as applied by \<^verbatim>\<open>if x:\<close> and \<^verbatim>\<open>not x\<close>.\<close>

fun truthy :: "pyval \<Rightarrow> bool" where
  "truthy PyNone = False"
| "truthy (PyBool b) = b"
| "truthy (PyInt i) = (i \<noteq> 0)"
| "truthy (PyStr s) = (s \<noteq> [])"
| "truthy (PyList xs) = (xs \<noteq> [])"
| "truthy (PyDict kvs) = (kvs \<noteq> [])"
| "truthy (PyObj n) = True"

datatype pyexn =
    TypeError
  | AttributeError
  | CoreError nat

text \<open>
  \<^verbatim>\<open>d.get(key, default)\<close>. Only a dictionary has the method; on any other value of the
  model the attribute lookup raises.
\<close>

fun dict_get :: "pyval \<Rightarrow> string \<Rightarrow> pyval \<Rightarrow> pyexn + pyval" where
  "dict_get (PyDict kvs) k d = Inr (case map_of kvs k of None \<Rightarrow> d | Some v \<Rightarrow> v)"
| "dict_get v k d = Inl AttributeError"

subsection \<open>Calling a Python function with \<^verbatim>\<open>*args\<close> and \<^verbatim>\<open>**kwargs\<close>\<close>

text \<open>
  A parameter is its name and its default, if it has one. Positional arguments fill
  the parameters from the left; too many of them raise \<^verbatim>\<open>TypeError\<close>.
\<close>

type_synonym param = "string \<times> pyval option"

fun bind_positional :: "param list \<Rightarrow> pyval list \<Rightarrow> pyexn + (pyval list \<times> param list)" where
  "bind_positional ps [] = Inr ([], ps)"
| "bind_positional [] (a # as) = Inl TypeError"
| "bind_positional (p # ps) (a # as) =
     (case bind_positional ps as of
        Inl e \<Rightarrow> Inl e
      | Inr (vs, rest) \<Rightarrow> Inr (a # vs, rest))"

text \<open>
  The parameters left over take the keyword argument of their name, else their default;
  a parameter with neither raises \<^verbatim>\<open>TypeError\<close>.
\<close>

fun bind_keywords :: "param list \<Rightarrow> (string \<times> pyval) list \<Rightarrow> pyexn + pyval list" where
  "bind_keywords [] kw = Inr []"
| "bind_keywords ((n, d) # ps) kw =
     (case (case map_of kw n of Some v \<Rightarrow> Some v | None \<Rightarrow> d) of
        None \<Rightarrow> Inl TypeError
      | Some v \<Rightarrow>
          (case bind_keywords ps kw of
             Inl e \<Rightarrow> Inl e
           | Inr vs \<Rightarrow> Inr (v # vs)))"

text \<open>
  A keyword that names no parameter, or a parameter already filled by position, raises
  \<^verbatim>\<open>TypeError\<close>. The result lists the values of the parameters in their declared order.
\<close>

definition bind_args :: "param list \<Rightarrow> pyval list \<Rightarrow> (string \<times> pyval) list \<Rightarrow> pyexn + pyval list" where
  "bind_args params args kwargs =
     (case bind_positional params args of
        Inl e \<Rightarrow> Inl e
      | Inr (vs, rest) \<Rightarrow>
          if list_ex (\<lambda>k. k \<notin> set (map fst rest)) (map fst kwargs) then Inl TypeError
          else (case bind_keywords rest kwargs of
                  Inl e \<Rightarrow> Inl e
                | Inr ws \<Rightarrow> Inr (vs @ ws)))"

subsection \<open>The core module, as a parameter\<close>

text \<open>
  One constructor per function of \<^verbatim>\<open>core\<close> that the server calls, with the arguments
  in the order the server passes them; the first is always the working directory.
\<close>

datatype core_call =
    CoreHealthCheck pyval
  | CoreListPresets pyval
  | CoreCreateProject pyval pyval pyval
  | CoreBuildProject pyval pyval pyval pyval pyval
  | CoreTestProject pyval pyval pyval pyval pyval

fun call_working_dir :: "core_call \<Rightarrow> pyval" where
  "call_working_dir (CoreHealthCheck w) = w"
| "call_working_dir (CoreListPresets w) = w"
| "call_working_dir (CoreCreateProject w p d) = w"
| "call_working_dir (CoreBuildProject w p t v j) = w"
| "call_working_dir (CoreTestProject w p f v j) = w"

text \<open>What a call of the core module does: it returns a value or raises.\<close>

type_synonym core = "core_call \<Rightarrow> pyexn + pyval"

subsection \<open>Server state\<close>

text \<open>
  The two module globals, and the record of the calls made into \<^verbatim>\<open>core\<close> so far
  (the oldest first). Subprocesses are launched by \<^verbatim>\<open>core\<close> only, so a call that leaves
  \<open>core_calls\<close> as it was has launched none.
\<close>

record state =
  WORKING_DIRECTORY :: pyval
  IS_HEALTHY :: pyval
  core_calls :: "core_call list"

definition initial_state :: state where
  "initial_state = \<lparr>WORKING_DIRECTORY = PyNone, IS_HEALTHY = PyBool False, core_calls = []\<rparr>"

definition invoke :: "core \<Rightarrow> state \<Rightarrow> core_call \<Rightarrow> state \<times> (pyexn + pyval)" where
  "invoke core s c = (s\<lparr>core_calls := core_calls s @ [c]\<rparr>, core c)"

definition update_state :: "state \<Rightarrow> pyval \<Rightarrow> pyval \<Rightarrow> state" where
  "update_state s healthy working_dir =
     (let s1 = s\<lparr>IS_HEALTHY := healthy\<rparr>
      in if truthy working_dir then s1\<lparr>WORKING_DIRECTORY := working_dir\<rparr> else s1)"

subsection \<open>The tools\<close>

definition health_check :: "core \<Rightarrow> state \<Rightarrow> pyval \<Rightarrow> pyval \<Rightarrow> state \<times> (pyexn + pyval)" where
  "health_check core s ctx working_dir =
     (case invoke core s (CoreHealthCheck working_dir) of
        (s1, Inl e) \<Rightarrow> (s1, Inl e)
      | (s1, Inr result) \<Rightarrow>
          (case dict_get result ''is_healthy'' (PyBool False) of
             Inl e \<Rightarrow> (s1, Inl e)
           | Inr healthy \<Rightarrow>
               (case dict_get result ''working_directory'' PyNone of
                  Inl e \<Rightarrow> (s1, Inl e)
                | Inr wd \<Rightarrow> (update_state s1 healthy wd, Inr result))))"

text \<open>
  Modelled from the spec: \<^verbatim>\<open>models.FailureResponse\<close> and its \<^verbatim>\<open>dict()\<close>, which are
  not among the sources. The spec gives the failure envelope the two fields
  \<^verbatim>\<open>summary\<close> and \<^verbatim>\<open>errors\<close>.
\<close>

definition FailureResponse_dict :: "string \<Rightarrow> pyval \<Rightarrow> pyval" where
  "FailureResponse_dict summary errors = PyDict [(''summary'', PyStr summary), (''errors'', errors)]"

type_synonym tool_func = "state \<Rightarrow> pyval list \<Rightarrow> (string \<times> pyval) list \<Rightarrow> state \<times> (pyexn + pyval)"

definition tool_guard :: "tool_func \<Rightarrow> tool_func" where
  "tool_guard func s args kwargs =
     (if \<not> truthy (IS_HEALTHY s) then
        (s, Inr (FailureResponse_dict ''Server is not in a healthy state.''
                   (PyList [PyDict [(''message'', PyStr ''Run health_check first.''),
                                    (''severity'', PyStr ''error'')]])))
      else func s args (AList.update ''working_dir'' (WORKING_DIRECTORY s) kwargs))"

text \<open>
  The four functions under the decorator. Each binds its parameters as Python does and
  hands them to the function of \<^verbatim>\<open>core\<close> of the same name.
\<close>

definition list_presets_func :: "core \<Rightarrow> tool_func" where
  "list_presets_func core s args kwargs =
     (case bind_args [(''ctx'', None), (''working_dir'', None)] args kwargs of
        Inr [ctx, working_dir] \<Rightarrow> invoke core s (CoreListPresets working_dir)
      | Inr vs \<Rightarrow> (s, Inl TypeError)
      | Inl e \<Rightarrow> (s, Inl e))"

definition create_project_func :: "core \<Rightarrow> tool_func" where
  "create_project_func core s args kwargs =
     (case bind_args [(''ctx'', None), (''working_dir'', None), (''preset'', None),
                      (''cmake_defines'', Some PyNone)] args kwargs of
        Inr [ctx, working_dir, preset, cmake_defines] \<Rightarrow>
          invoke core s (CoreCreateProject working_dir preset cmake_defines)
      | Inr vs \<Rightarrow> (s, Inl TypeError)
      | Inl e \<Rightarrow> (s, Inl e))"

definition build_project_func :: "core \<Rightarrow> tool_func" where
  "build_project_func core s args kwargs =
     (case bind_args [(''ctx'', None), (''working_dir'', None), (''preset'', None),
                      (''targets'', Some PyNone), (''verbose'', Some (PyBool False)),
                      (''parallel_jobs'', Some PyNone)] args kwargs of
        Inr [ctx, working_dir, preset, targets, verbose, parallel_jobs] \<Rightarrow>
          invoke core s (CoreBuildProject working_dir preset targets verbose parallel_jobs)
      | Inr vs \<Rightarrow> (s, Inl TypeError)
      | Inl e \<Rightarrow> (s, Inl e))"

definition test_project_func :: "core \<Rightarrow> tool_func" where
  "test_project_func core s args kwargs =
     (case bind_args [(''ctx'', None), (''working_dir'', None), (''preset'', None),
                      (''test_filter'', Some PyNone), (''verbose'', Some (PyBool False)),
                      (''parallel_jobs'', Some PyNone)] args kwargs of
        Inr [ctx, working_dir, preset, test_filter, verbose, parallel_jobs] \<Rightarrow>
          invoke core s (CoreTestProject working_dir preset test_filter verbose parallel_jobs)
      | Inr vs \<Rightarrow> (s, Inl TypeError)
      | Inl e \<Rightarrow> (s, Inl e))"

definition list_presets :: "core \<Rightarrow> tool_func" where
  "list_presets core = tool_guard (list_presets_func core)"

definition create_project :: "core \<Rightarrow> tool_func" where
  "create_project core = tool_guard (create_project_func core)"

definition build_project :: "core \<Rightarrow> tool_func" where
  "build_project core = tool_guard (build_project_func core)"

definition test_project :: "core \<Rightarrow> tool_func" where
  "test_project core = tool_guard (test_project_func core)"

text \<open>
  The part of \<^verbatim>\<open>main\<close> that runs before the transport is started: with a non-empty
  \<^verbatim>\<open>--working-dir\<close> it makes the path absolute, runs the core health check on it and
  records the result. \<^verbatim>\<open>os.path.abspath\<close> is a parameter; argument parsing, the
  printed messages and \<^verbatim>\<open>mcp.run\<close> are left out.
\<close>

definition main :: "core \<Rightarrow> (string \<Rightarrow> string) \<Rightarrow> state \<Rightarrow> string option \<Rightarrow> state \<times> (pyexn + unit)" where
  "main core abspath s working_dir_arg =
     (case working_dir_arg of
        None \<Rightarrow> (s, Inr ())
      | Some w \<Rightarrow>
          if w = [] then (s, Inr ())
          else
            (case invoke core s (CoreHealthCheck (PyStr (abspath w))) of
               (s1, Inl e) \<Rightarrow> (s1, Inl e)
             | (s1, Inr result) \<Rightarrow>
                 (case dict_get result ''is_healthy'' (PyBool False) of
                    Inl e \<Rightarrow> (s1, Inl e)
                  | Inr healthy \<Rightarrow>
                      (case dict_get result ''working_directory'' PyNone of
                         Inl e \<Rightarrow> (s1, Inl e)
                       | Inr wd \<Rightarrow> (update_state s1 healthy wd, Inr ())))))"

subsection \<open>Sessions\<close>

text \<open>
  A session is a sequence of tool calls, each made on the state the previous one left.
  What \<^verbatim>\<open>core\<close> answers depends on the file system at the time of the call, so every
  request comes with its own core.
\<close>

datatype request =
    HealthCheck pyval pyval
  | ListPresets "pyval list" "(string \<times> pyval) list"
  | CreateProject "pyval list" "(string \<times> pyval) list"
  | BuildProject "pyval list" "(string \<times> pyval) list"
  | TestProject "pyval list" "(string \<times> pyval) list"

fun serve :: "core \<Rightarrow> state \<Rightarrow> request \<Rightarrow> state \<times> (pyexn + pyval)" where
  "serve core s (HealthCheck ctx working_dir) = health_check core s ctx working_dir"
| "serve core s (ListPresets args kwargs) = list_presets core s args kwargs"
| "serve core s (CreateProject args kwargs) = create_project core s args kwargs"
| "serve core s (BuildProject args kwargs) = build_project core s args kwargs"
| "serve core s (TestProject args kwargs) = test_project core s args kwargs"

fun is_health_check :: "request \<Rightarrow> bool" where
  "is_health_check (HealthCheck ctx working_dir) = True"
| "is_health_check r = False"

fun session :: "state \<Rightarrow> (core \<times> request) list \<Rightarrow> state" where
  "session s [] = s"
| "session s ((core, r) # rs) = session (fst (serve core s r)) rs"

text \<open>A core whose every call returns the same value: the stub of the examples.\<close>

definition core_returning :: "pyval \<Rightarrow> core" where
  "core_returning r c = Inr r"

subsection \<open>The configure invocation\<close>

text \<open>
  Modelled from the spec: the step by which \<^verbatim>\<open>core.create_project\<close> adds the override
  flag of one entry of the defines to the arguments, \<^verbatim>\<open>-D<KEY>=<VALUE>\<close>; \<^verbatim>\<open>core\<close> is not
  among the sources.
\<close>

definition append_define :: "string list \<Rightarrow> string \<times> string \<Rightarrow> string list" where
  "append_define arguments kv = arguments @ [''-D'' @ fst kv @ ''='' @ snd kv]"

text \<open>
  Modelled from the spec: the argument list that \<^verbatim>\<open>core.create_project\<close> builds for
  the configure driver; \<^verbatim>\<open>core\<close> is not among the sources. The spec has it select the
  named preset and then append one override flag per entry of the defines, in the
  order of the entries: \<^verbatim>\<open>--preset <name>\<close> plus one \<^verbatim>\<open>-D<KEY>=<VALUE>\<close> per define.
  The defines are a dictionary, hence an association list in insertion order.
\<close>

definition configure_arguments :: "string \<Rightarrow> (string \<times> string) list \<Rightarrow> string list" where
  "configure_arguments preset cmake_defines = foldl append_define [''--preset'', preset] cmake_defines"

text \<open>An argument that begins with \<^verbatim>\<open>-D\<close>.\<close>

definition is_define_flag :: "string \<Rightarrow> bool" where
  "is_define_flag a = (take 2 a = ''-D'')"

section \<open>Properties\<close>

subsection \<open>Argument binding\<close>

text \<open>
  Binding returns one value per parameter, so the fallback branch of the four tool
  functions is never taken; and a parameter given by keyword receives that keyword's value.
\<close>

lemma bind_positional_shape:
  "bind_positional ps as = Inr (vs, rest) \<Longrightarrow> vs = as \<and> rest = drop (length as) ps \<and> length as \<le> length ps"
  by (induction ps as arbitrary: vs rest rule: bind_positional.induct) (auto split: sum.splits)

lemma bind_keywords_length:
  "bind_keywords ps kw = Inr ws \<Longrightarrow> length ws = length ps"
  by (induction ps kw arbitrary: ws rule: bind_keywords.induct) (auto split: sum.splits option.splits)

lemma bind_keywords_nth:
  "bind_keywords ps kw = Inr ws \<Longrightarrow> j < length ps \<Longrightarrow> map_of kw (fst (ps ! j)) = Some v \<Longrightarrow> ws ! j = v"
proof (induction ps kw arbitrary: ws j rule: bind_keywords.induct)
  case (1 kw)
  then show ?case by simp
next
  case (2 n d ps kw)
  then show ?case
    by (cases j) (auto split: sum.splits option.splits)
qed

lemma bind_args_length:
  "bind_args ps as kw = Inr vs \<Longrightarrow> length vs = length ps"
  by (auto simp: bind_args_def split: sum.splits if_splits dest!: bind_positional_shape bind_keywords_length)

lemma bind_args_keyword:
  assumes b: "bind_args ps as kw = Inr vs"
    and k: "map_of kw n = Some v"
    and d: "distinct (map fst ps)"
    and i: "i < length ps" "fst (ps ! i) = n"
  shows "vs ! i = v"
proof -
  from b obtain ws where pos: "bind_positional ps as = Inr (as, drop (length as) ps)"
    and le: "length as \<le> length ps"
    and known: "\<not> list_ex (\<lambda>k. k \<notin> set (map fst (drop (length as) ps))) (map fst kw)"
    and kws: "bind_keywords (drop (length as) ps) kw = Inr ws"
    and vs: "vs = as @ ws"
    by (auto simp: bind_args_def split: sum.splits if_splits dest!: bind_positional_shape)
  from k have "n \<in> set (map fst kw)"
    by (auto dest: map_of_SomeD intro: rev_image_eqI)
  with known have "n \<in> set (map fst (drop (length as) ps))"
    by (auto simp: list_ex_iff)
  then obtain j where j: "j < length ps - length as" "fst (ps ! (length as + j)) = n"
    by (auto simp: in_set_conv_nth)
  with d i le have "i = length as + j"
    by (metis (no_types, lifting) distinct_conv_nth length_map less_diff_conv add.commute nth_map)
  moreover from kws j k have "ws ! j = v"
    by (intro bind_keywords_nth[OF kws]) auto
  ultimately show ?thesis
    using vs by (simp add: nth_append)
qed

subsection \<open>The decorated functions\<close>

text \<open>
  Each function under the decorator either fails to bind its arguments, and then calls
  nothing, or makes one call into the core module, with the keyword argument
  \<^verbatim>\<open>working_dir\<close> as the working directory.
\<close>

lemma list_presets_func_calls:
  assumes "map_of kwargs ''working_dir'' = Some w"
  shows "list_presets_func core s args kwargs = invoke core s (CoreListPresets w)
       \<or> (\<exists>e. list_presets_func core s args kwargs = (s, Inl e))"
proof (cases "bind_args [(''ctx'', None), (''working_dir'', None)] args kwargs")
  case (Inl e)
  then show ?thesis by (simp add: list_presets_func_def)
next
  case (Inr vs)
  from bind_args_length[OF Inr] obtain a b where vs: "vs = [a, b]"
    by (auto simp: length_Suc_conv)
  from bind_args_keyword[OF Inr assms, of 1] have "vs ! 1 = w" by simp
  with vs Inr show ?thesis by (simp add: list_presets_func_def)
qed

lemma create_project_func_calls:
  assumes "map_of kwargs ''working_dir'' = Some w"
  shows "(\<exists>p d. create_project_func core s args kwargs = invoke core s (CoreCreateProject w p d))
       \<or> (\<exists>e. create_project_func core s args kwargs = (s, Inl e))"
proof (cases "bind_args [(''ctx'', None), (''working_dir'', None), (''preset'', None),
                      (''cmake_defines'', Some PyNone)] args kwargs")
  case (Inl e)
  then show ?thesis by (simp add: create_project_func_def)
next
  case (Inr vs)
  from bind_args_length[OF Inr] obtain a b c d where vs: "vs = [a, b, c, d]"
    by (auto simp: length_Suc_conv)
  from bind_args_keyword[OF Inr assms, of 1] have "vs ! 1 = w" by simp
  with vs Inr show ?thesis by (auto simp: create_project_func_def)
qed

lemma build_project_func_calls:
  assumes "map_of kwargs ''working_dir'' = Some w"
  shows "(\<exists>p t v j. build_project_func core s args kwargs = invoke core s (CoreBuildProject w p t v j))
       \<or> (\<exists>e. build_project_func core s args kwargs = (s, Inl e))"
proof (cases "bind_args [(''ctx'', None), (''working_dir'', None), (''preset'', None),
                      (''targets'', Some PyNone), (''verbose'', Some (PyBool False)),
                      (''parallel_jobs'', Some PyNone)] args kwargs")
  case (Inl e)
  then show ?thesis by (simp add: build_project_func_def)
next
  case (Inr vs)
  from bind_args_length[OF Inr] obtain a b c d e f where vs: "vs = [a, b, c, d, e, f]"
    by (auto simp: length_Suc_conv)
  from bind_args_keyword[OF Inr assms, of 1] have "vs ! 1 = w" by simp
  with vs Inr show ?thesis by (auto simp: build_project_func_def)
qed

lemma test_project_func_calls:
  assumes "map_of kwargs ''working_dir'' = Some w"
  shows "(\<exists>p t v j. test_project_func core s args kwargs = invoke core s (CoreTestProject w p t v j))
       \<or> (\<exists>e. test_project_func core s args kwargs = (s, Inl e))"
proof (cases "bind_args [(''ctx'', None), (''working_dir'', None), (''preset'', None),
                      (''test_filter'', Some PyNone), (''verbose'', Some (PyBool False)),
                      (''parallel_jobs'', Some PyNone)] args kwargs")
  case (Inl e)
  then show ?thesis by (simp add: test_project_func_def)
next
  case (Inr vs)
  from bind_args_length[OF Inr] obtain a b c d e f where vs: "vs = [a, b, c, d, e, f]"
    by (auto simp: length_Suc_conv)
  from bind_args_keyword[OF Inr assms, of 1] have "vs ! 1 = w" by simp
  with vs Inr show ?thesis by (auto simp: test_project_func_def)
qed

lemma tool_guard_unhealthy:
  "\<not> truthy (IS_HEALTHY s) \<Longrightarrow>
   tool_guard func s args kwargs =
     (s, Inr (PyDict [(''summary'', PyStr ''Server is not in a healthy state.''),
                      (''errors'', PyList [PyDict [(''message'', PyStr ''Run health_check first.''),
                                                   (''severity'', PyStr ''error'')]])]))"
  by (simp add: tool_guard_def FailureResponse_dict_def)

lemma tool_guard_healthy:
  "truthy (IS_HEALTHY s) \<Longrightarrow>
   tool_guard func s args kwargs = func s args (AList.update ''working_dir'' (WORKING_DIRECTORY s) kwargs)"
  by (simp add: tool_guard_def)

lemma map_of_update_working_dir:
  "map_of (AList.update ''working_dir'' w kwargs) ''working_dir'' = Some w"
  by (simp add: update_conv')

subsection \<open>The health gate\<close>

text \<open>
  C1. Each of \<^verbatim>\<open>list_presets\<close>, \<^verbatim>\<open>create_project\<close>, \<^verbatim>\<open>build_project\<close> and
  \<^verbatim>\<open>test_project\<close>, called when the health flag is false, returns exactly the failure
  envelope with the summary "Server is not in a healthy state." and the single error
  "Run health_check first." of severity "error", whatever its arguments; the state it
  leaves is the state it found, so no call into the core module has been made and no
  subprocess launched.
\<close>

theorem unhealthy_gate_refuses:
  assumes "\<not> truthy (IS_HEALTHY s)"
  shows "\<forall>tool \<in> set [list_presets core, create_project core, build_project core, test_project core].
           tool s args kwargs =
             (s, Inr (PyDict [(''summary'', PyStr ''Server is not in a healthy state.''),
                              (''errors'', PyList [PyDict [(''message'', PyStr ''Run health_check first.''),
                                                           (''severity'', PyStr ''error'')]])]))
           \<and> core_calls (fst (tool s args kwargs)) = core_calls s"
  using assms
  by (simp add: list_presets_def create_project_def build_project_def test_project_def
      tool_guard_unhealthy)

theorem unhealthy_gate_refuses_witness:
  "\<not> truthy (IS_HEALTHY initial_state)
   \<and> build_project (core_returning (PyStr ''built'')) initial_state [PyObj 0] [(''preset'', PyStr ''debug'')] =
       (initial_state, Inr (PyDict [(''summary'', PyStr ''Server is not in a healthy state.''),
                              (''errors'', PyList [PyDict [(''message'', PyStr ''Run health_check first.''),
                                                           (''severity'', PyStr ''error'')]])]))
   \<and> core_calls (fst (build_project (core_returning (PyStr ''built'')) initial_state [PyObj 0]
        [(''preset'', PyStr ''debug'')])) = []"
  using unhealthy_gate_refuses [of initial_state "core_returning (PyStr ''built'')" "[PyObj 0]"
      "[(''preset'', PyStr ''debug'')]"]
  by (simp add: initial_state_def)

subsection \<open>The health check\<close>


lemma health_check_returns_iff:
  "health_check core s ctx working_dir = (s', Inr result) \<longleftrightarrow>
     (\<exists>healthy wd.
        core (CoreHealthCheck working_dir) = Inr result
      \<and> dict_get result ''is_healthy'' (PyBool False) = Inr healthy
      \<and> dict_get result ''working_directory'' PyNone = Inr wd
      \<and> s' = update_state (s\<lparr>core_calls := core_calls s @ [CoreHealthCheck working_dir]\<rparr>) healthy wd)"
  by (auto simp: health_check_def invoke_def split: sum.splits)

lemma update_state_fields:
  "IS_HEALTHY (update_state s healthy wd) = healthy"
  "WORKING_DIRECTORY (update_state s healthy wd) = (if truthy wd then wd else WORKING_DIRECTORY s)"
  "core_calls (update_state s healthy wd) = core_calls s"
  by (simp_all add: update_state_def Let_def)

lemma update_state_record:
  "update_state s healthy wd =
     \<lparr>WORKING_DIRECTORY = (if truthy wd then wd else WORKING_DIRECTORY s),
      IS_HEALTHY = healthy, core_calls = core_calls s\<rparr>"
  by (cases s) (simp add: update_state_def Let_def)

text \<open>
  C2, as amended. A call of \<^verbatim>\<open>health_check\<close> returns a result exactly when the core
  check returned that result and it is a dictionary; on return the health flag is the
  result's \<^verbatim>\<open>is_healthy\<close> entry (\<^verbatim>\<open>False\<close> when the key is absent), and the working
  directory is the result's \<^verbatim>\<open>working_directory\<close> entry when that entry is truthy
  (neither absent, \<^verbatim>\<open>None\<close> nor empty) and the previous working directory otherwise.
\<close>

theorem health_check_replaces_flag_keeps_directory_unless_truthy:
  "health_check core s ctx working_dir = (s', Inr result) \<longleftrightarrow>
     (\<exists>healthy wd.
        core (CoreHealthCheck working_dir) = Inr result
      \<and> dict_get result ''is_healthy'' (PyBool False) = Inr healthy
      \<and> dict_get result ''working_directory'' PyNone = Inr wd
      \<and> s' = \<lparr>WORKING_DIRECTORY = (if truthy wd then wd else WORKING_DIRECTORY s),
               IS_HEALTHY = healthy,
               core_calls = core_calls s @ [CoreHealthCheck working_dir]\<rparr>)"
  by (simp add: health_check_returns_iff update_state_record)

text \<open>
  C2 as stated does not hold: the state is not wholly replaced. A session that is
  healthy in \<^verbatim>\<open>/tmp/proj\<close> and then checks \<^verbatim>\<open>/missing\<close>, with the result unhealthy and
  without a working directory, loses the flag and keeps the directory \<^verbatim>\<open>/tmp/proj\<close>.
\<close>

theorem failed_check_keeps_previous_directory:
  "health_check
     (core_returning (PyDict [(''is_healthy'', PyBool False), (''working_directory'', PyNone),
        (''diagnostics'', PyList [PyDict [(''message'', PyStr ''/missing does not exist''),
                                          (''severity'', PyStr ''error'')]])]))
     \<lparr>WORKING_DIRECTORY = PyStr ''/tmp/proj'', IS_HEALTHY = PyBool True, core_calls = []\<rparr>
     (PyObj 0) (PyStr ''/missing'')
   = (\<lparr>WORKING_DIRECTORY = PyStr ''/tmp/proj'', IS_HEALTHY = PyBool False,
       core_calls = [CoreHealthCheck (PyStr ''/missing'')]\<rparr>,
      Inr (PyDict [(''is_healthy'', PyBool False), (''working_directory'', PyNone),
        (''diagnostics'', PyList [PyDict [(''message'', PyStr ''/missing does not exist''),
                                          (''severity'', PyStr ''error'')]])]))"
  by (simp add: health_check_def invoke_def core_returning_def update_state_def)

text \<open>The amended statement at a successful check of another directory.\<close>

theorem health_check_replaces_flag_keeps_directory_unless_truthy_witness:
  "health_check
     (core_returning (PyDict [(''is_healthy'', PyBool True), (''working_directory'', PyStr ''/tmp/new'')]))
     \<lparr>WORKING_DIRECTORY = PyStr ''/tmp/proj'', IS_HEALTHY = PyBool False, core_calls = []\<rparr>
     (PyObj 0) (PyStr ''/tmp/new'')
   = (\<lparr>WORKING_DIRECTORY = PyStr ''/tmp/new'', IS_HEALTHY = PyBool True,
       core_calls = [CoreHealthCheck (PyStr ''/tmp/new'')]\<rparr>,
      Inr (PyDict [(''is_healthy'', PyBool True), (''working_directory'', PyStr ''/tmp/new'')]))"
  by (simp add: health_check_replaces_flag_keeps_directory_unless_truthy core_returning_def)

text \<open>
  C5. Whenever \<^verbatim>\<open>health_check\<close> returns a result, the result is a dictionary and the
  health flag of the state it leaves is that dictionary's own \<^verbatim>\<open>is_healthy\<close> entry, or
  \<^verbatim>\<open>False\<close> when it has none, whatever the flag was before: a failed check overwrites a
  healthy flag.
\<close>

theorem health_flag_equals_result_flag:
  assumes "health_check core s ctx working_dir = (s', Inr result)"
  shows "\<exists>r. result = PyDict r
           \<and> IS_HEALTHY s' = (case map_of r ''is_healthy'' of None \<Rightarrow> PyBool False | Some v \<Rightarrow> v)"
proof -
  from assms obtain healthy where
    get: "dict_get result ''is_healthy'' (PyBool False) = Inr healthy" and flag: "IS_HEALTHY s' = healthy"
    by (auto simp: health_check_returns_iff update_state_fields)
  from get obtain r where "result = PyDict r"
    and "healthy = (case map_of r ''is_healthy'' of None \<Rightarrow> PyBool False | Some v \<Rightarrow> v)"
    by (cases result) auto
  with flag show ?thesis by simp
qed

text \<open>
  A successful check on an unhealthy session stores \<^verbatim>\<open>True\<close>, and a failed check on the
  healthy session it leaves stores \<^verbatim>\<open>False\<close>.
\<close>

theorem health_flag_equals_result_flag_witness:
  "health_check
     (core_returning (PyDict [(''is_healthy'', PyBool True), (''working_directory'', PyStr ''/tmp/proj'')]))
     \<lparr>WORKING_DIRECTORY = PyNone, IS_HEALTHY = PyBool False, core_calls = []\<rparr>
     (PyObj 0) (PyStr ''/tmp/proj'')
   = (\<lparr>WORKING_DIRECTORY = PyStr ''/tmp/proj'', IS_HEALTHY = PyBool True,
       core_calls = [CoreHealthCheck (PyStr ''/tmp/proj'')]\<rparr>,
      Inr (PyDict [(''is_healthy'', PyBool True), (''working_directory'', PyStr ''/tmp/proj'')]))
   \<and> health_check
     (core_returning (PyDict [(''is_healthy'', PyBool False), (''working_directory'', PyNone)]))
     \<lparr>WORKING_DIRECTORY = PyStr ''/tmp/proj'', IS_HEALTHY = PyBool True,
       core_calls = [CoreHealthCheck (PyStr ''/tmp/proj'')]\<rparr>
     (PyObj 0) (PyStr ''/missing'')
   = (\<lparr>WORKING_DIRECTORY = PyStr ''/tmp/proj'', IS_HEALTHY = PyBool False,
       core_calls = [CoreHealthCheck (PyStr ''/tmp/proj''), CoreHealthCheck (PyStr ''/missing'')]\<rparr>,
      Inr (PyDict [(''is_healthy'', PyBool False), (''working_directory'', PyNone)]))
   \<and> (\<exists>r. PyDict [(''is_healthy'', PyBool True), (''working_directory'', PyStr ''/tmp/proj'')] = PyDict r
         \<and> map_of r ''is_healthy'' = Some (PyBool True)
         \<and> IS_HEALTHY \<lparr>WORKING_DIRECTORY = PyStr ''/tmp/proj'', IS_HEALTHY = PyBool True,
              core_calls = [CoreHealthCheck (PyStr ''/tmp/proj'')]\<rparr>
             = (case map_of r ''is_healthy'' of None \<Rightarrow> PyBool False | Some v \<Rightarrow> v))"
proof -
  have run1: "health_check
     (core_returning (PyDict [(''is_healthy'', PyBool True), (''working_directory'', PyStr ''/tmp/proj'')]))
     \<lparr>WORKING_DIRECTORY = PyNone, IS_HEALTHY = PyBool False, core_calls = []\<rparr>
     (PyObj 0) (PyStr ''/tmp/proj'')
   = (\<lparr>WORKING_DIRECTORY = PyStr ''/tmp/proj'', IS_HEALTHY = PyBool True,
       core_calls = [CoreHealthCheck (PyStr ''/tmp/proj'')]\<rparr>,
      Inr (PyDict [(''is_healthy'', PyBool True), (''working_directory'', PyStr ''/tmp/proj'')]))"
    by (simp add: health_check_def invoke_def core_returning_def update_state_def)
  have run2: "health_check
     (core_returning (PyDict [(''is_healthy'', PyBool False), (''working_directory'', PyNone)]))
     \<lparr>WORKING_DIRECTORY = PyStr ''/tmp/proj'', IS_HEALTHY = PyBool True,
       core_calls = [CoreHealthCheck (PyStr ''/tmp/proj'')]\<rparr>
     (PyObj 0) (PyStr ''/missing'')
   = (\<lparr>WORKING_DIRECTORY = PyStr ''/tmp/proj'', IS_HEALTHY = PyBool False,
       core_calls = [CoreHealthCheck (PyStr ''/tmp/proj''), CoreHealthCheck (PyStr ''/missing'')]\<rparr>,
      Inr (PyDict [(''is_healthy'', PyBool False), (''working_directory'', PyNone)]))"
    by (simp add: health_check_def invoke_def core_returning_def update_state_def)
  from health_flag_equals_result_flag [OF run1] run1 run2 show ?thesis
    by auto
qed



subsection \<open>Startup and the default of the health flag\<close>

lemma main_without_directory:
  "main core abspath s None = (s, Inr ())" "main core abspath s (Some []) = (s, Inr ())"
  by (simp_all add: main_def)

lemma main_with_dict:
  assumes "w \<noteq> []" and "core (CoreHealthCheck (PyStr (abspath w))) = Inr (PyDict r)"
  shows "main core abspath s (Some w) =
           (update_state (s\<lparr>core_calls := core_calls s @ [CoreHealthCheck (PyStr (abspath w))]\<rparr>)
              (case map_of r ''is_healthy'' of None \<Rightarrow> PyBool False | Some v \<Rightarrow> v)
              (case map_of r ''working_directory'' of None \<Rightarrow> PyNone | Some v \<Rightarrow> v),
            Inr ())"
  using assms by (simp add: main_def invoke_def)

lemma health_check_with_dict:
  assumes "core (CoreHealthCheck working_dir) = Inr (PyDict r)"
  shows "health_check core s ctx working_dir =
           (update_state (s\<lparr>core_calls := core_calls s @ [CoreHealthCheck working_dir]\<rparr>)
              (case map_of r ''is_healthy'' of None \<Rightarrow> PyBool False | Some v \<Rightarrow> v)
              (case map_of r ''working_directory'' of None \<Rightarrow> PyNone | Some v \<Rightarrow> v),
            Inr (PyDict r))"
  using assms by (simp add: health_check_returns_iff)

text \<open>
  C10, as amended. Let the core health check return a dictionary, and let the state be
  the one left by \<^verbatim>\<open>health_check\<close>, or by \<^verbatim>\<open>main\<close> started with a working directory. The
  health flag is the dictionary's \<^verbatim>\<open>is_healthy\<close> entry itself, or \<^verbatim>\<open>False\<close> when the key is
  absent. The session is healthy, that is the gate of \<^verbatim>\<open>tool_guard\<close> opens, exactly when
  the entry is present and truthy; for a boolean entry, exactly when it is \<^verbatim>\<open>True\<close>.
  When the key is absent the flag is \<^verbatim>\<open>False\<close> and the gate stays closed: the default is
  unhealthy.
\<close>

theorem gate_opens_iff_result_flag_truthy:
  assumes "core (CoreHealthCheck working_dir) = Inr (PyDict r)"
    and "s' = fst (health_check core s ctx working_dir)
         \<or> (\<exists>w. w \<noteq> [] \<and> working_dir = PyStr (abspath w) \<and> s' = fst (main core abspath s (Some w)))"
  shows "IS_HEALTHY s' = (case map_of r ''is_healthy'' of None \<Rightarrow> PyBool False | Some v \<Rightarrow> v)
       \<and> (truthy (IS_HEALTHY s') \<longleftrightarrow> (\<exists>v. map_of r ''is_healthy'' = Some v \<and> truthy v))
       \<and> (\<forall>b. map_of r ''is_healthy'' = Some (PyBool b) \<longrightarrow> (truthy (IS_HEALTHY s') \<longleftrightarrow> b))
       \<and> (map_of r ''is_healthy'' = None \<longrightarrow> IS_HEALTHY s' = PyBool False \<and> \<not> truthy (IS_HEALTHY s'))
       \<and> tool_guard func s' args kwargs =
           (if \<exists>v. map_of r ''is_healthy'' = Some v \<and> truthy v
            then func s' args (AList.update ''working_dir'' (WORKING_DIRECTORY s') kwargs)
            else (s', Inr (PyDict [(''summary'', PyStr ''Server is not in a healthy state.''),
                                   (''errors'', PyList [PyDict [(''message'', PyStr ''Run health_check first.''),
                                                                (''severity'', PyStr ''error'')]])])))"
proof -
  from assms have flag: "IS_HEALTHY s' = (case map_of r ''is_healthy'' of None \<Rightarrow> PyBool False | Some v \<Rightarrow> v)"
    by (auto simp: health_check_with_dict main_with_dict update_state_fields)
  have open_iff: "truthy (IS_HEALTHY s') \<longleftrightarrow> (\<exists>v. map_of r ''is_healthy'' = Some v \<and> truthy v)"
    unfolding flag by (auto split: option.splits)
  have guard: "tool_guard func s' args kwargs =
           (if \<exists>v. map_of r ''is_healthy'' = Some v \<and> truthy v
            then func s' args (AList.update ''working_dir'' (WORKING_DIRECTORY s') kwargs)
            else (s', Inr (PyDict [(''summary'', PyStr ''Server is not in a healthy state.''),
                                   (''errors'', PyList [PyDict [(''message'', PyStr ''Run health_check first.''),
                                                                (''severity'', PyStr ''error'')]])])))"
    unfolding open_iff [symmetric] by (simp add: tool_guard_def FailureResponse_dict_def)
  from flag open_iff guard show ?thesis
    by (auto split: option.splits)
qed

text \<open>
  C10 as stated does not hold: the gate tests the truth value of the stored entry, not
  whether it is \<^verbatim>\<open>True\<close>. A result that maps \<^verbatim>\<open>is_healthy\<close> to the string \<^verbatim>\<open>yes\<close> makes
  the session healthy, and \<^verbatim>\<open>list_presets\<close> then reaches the core module.
\<close>

theorem truthy_string_opens_gate:
  "map_of [(''is_healthy'', PyStr ''yes''), (''working_directory'', PyStr ''/tmp/proj'')] ''is_healthy''
     \<noteq> Some (PyBool True)
   \<and> health_check
       (core_returning (PyDict [(''is_healthy'', PyStr ''yes''), (''working_directory'', PyStr ''/tmp/proj'')]))
       initial_state (PyObj 0) (PyStr ''/tmp/proj'')
     = (\<lparr>WORKING_DIRECTORY = PyStr ''/tmp/proj'', IS_HEALTHY = PyStr ''yes'',
         core_calls = [CoreHealthCheck (PyStr ''/tmp/proj'')]\<rparr>,
        Inr (PyDict [(''is_healthy'', PyStr ''yes''), (''working_directory'', PyStr ''/tmp/proj'')]))
   \<and> list_presets (core_returning (PyList [PyStr ''debug'', PyStr ''release'']))
       \<lparr>WORKING_DIRECTORY = PyStr ''/tmp/proj'', IS_HEALTHY = PyStr ''yes'',
         core_calls = [CoreHealthCheck (PyStr ''/tmp/proj'')]\<rparr>
       [PyObj 0] []
     = (\<lparr>WORKING_DIRECTORY = PyStr ''/tmp/proj'', IS_HEALTHY = PyStr ''yes'',
         core_calls = [CoreHealthCheck (PyStr ''/tmp/proj''), CoreListPresets (PyStr ''/tmp/proj'')]\<rparr>,
        Inr (PyList [PyStr ''debug'', PyStr ''release'']))"
  by (simp add: health_check_def invoke_def core_returning_def update_state_def initial_state_def
      list_presets_def tool_guard_def list_presets_func_def bind_args_def)

text \<open>
  The amended statement at a result that says \<^verbatim>\<open>True\<close>, on the initial state, and at a
  result without the key, on a session that was healthy.
\<close>

theorem gate_opens_iff_result_flag_truthy_witness:
  "core_returning (PyDict [(''is_healthy'', PyBool True), (''working_directory'', PyStr ''/tmp/proj'')])
     (CoreHealthCheck (PyStr ''/tmp/proj''))
     = Inr (PyDict [(''is_healthy'', PyBool True), (''working_directory'', PyStr ''/tmp/proj'')])
   \<and> IS_HEALTHY (fst (health_check
        (core_returning (PyDict [(''is_healthy'', PyBool True), (''working_directory'', PyStr ''/tmp/proj'')]))
        initial_state (PyObj 0) (PyStr ''/tmp/proj''))) = PyBool True
   \<and> truthy (IS_HEALTHY (fst (health_check
        (core_returning (PyDict [(''is_healthy'', PyBool True), (''working_directory'', PyStr ''/tmp/proj'')]))
        initial_state (PyObj 0) (PyStr ''/tmp/proj''))))
   \<and> core_returning (PyDict [(''working_directory'', PyStr ''/tmp/proj'')]) (CoreHealthCheck (PyStr ''/tmp/proj''))
     = Inr (PyDict [(''working_directory'', PyStr ''/tmp/proj'')])
   \<and> IS_HEALTHY (fst (health_check (core_returning (PyDict [(''working_directory'', PyStr ''/tmp/proj'')]))
        \<lparr>WORKING_DIRECTORY = PyNone, IS_HEALTHY = PyBool True, core_calls = []\<rparr>
        (PyObj 0) (PyStr ''/tmp/proj''))) = PyBool False"
  using gate_opens_iff_result_flag_truthy
    [where core = "core_returning (PyDict [(''is_healthy'', PyBool True), (''working_directory'', PyStr ''/tmp/proj'')])"
       and working_dir = "PyStr ''/tmp/proj''"
       and r = "[(''is_healthy'', PyBool True), (''working_directory'', PyStr ''/tmp/proj'')]"
       and s = initial_state
       and ctx = "PyObj 0"
       and s' = "fst (health_check
          (core_returning (PyDict [(''is_healthy'', PyBool True), (''working_directory'', PyStr ''/tmp/proj'')]))
          initial_state (PyObj 0) (PyStr ''/tmp/proj''))"]
    gate_opens_iff_result_flag_truthy
    [where core = "core_returning (PyDict [(''working_directory'', PyStr ''/tmp/proj'')])"
       and working_dir = "PyStr ''/tmp/proj''"
       and r = "[(''working_directory'', PyStr ''/tmp/proj'')]"
       and s = "\<lparr>WORKING_DIRECTORY = PyNone, IS_HEALTHY = PyBool True, core_calls = []\<rparr>"
       and ctx = "PyObj 0"
       and s' = "fst (health_check (core_returning (PyDict [(''working_directory'', PyStr ''/tmp/proj'')]))
          \<lparr>WORKING_DIRECTORY = PyNone, IS_HEALTHY = PyBool True, core_calls = []\<rparr>
          (PyObj 0) (PyStr ''/tmp/proj''))"]
  by (simp add: core_returning_def)

subsection \<open>What the gated tools leave unchanged\<close>

text \<open>
  Calling the core module adds to the record of calls and touches neither global; so
  does each decorated function, and so does the decorator.
\<close>

lemma invoke_frame:
  "IS_HEALTHY (fst (invoke core s c)) = IS_HEALTHY s"
  "WORKING_DIRECTORY (fst (invoke core s c)) = WORKING_DIRECTORY s"
  by (simp_all add: invoke_def)

lemma list_presets_func_frame:
  "IS_HEALTHY (fst (list_presets_func core s args kwargs)) = IS_HEALTHY s
   \<and> WORKING_DIRECTORY (fst (list_presets_func core s args kwargs)) = WORKING_DIRECTORY s"
  by (simp add: list_presets_func_def invoke_frame split: sum.splits list.splits)

lemma create_project_func_frame:
  "IS_HEALTHY (fst (create_project_func core s args kwargs)) = IS_HEALTHY s
   \<and> WORKING_DIRECTORY (fst (create_project_func core s args kwargs)) = WORKING_DIRECTORY s"
  by (simp add: create_project_func_def invoke_frame split: sum.splits list.splits)

lemma build_project_func_frame:
  "IS_HEALTHY (fst (build_project_func core s args kwargs)) = IS_HEALTHY s
   \<and> WORKING_DIRECTORY (fst (build_project_func core s args kwargs)) = WORKING_DIRECTORY s"
  by (simp add: build_project_func_def invoke_frame split: sum.splits list.splits)

lemma test_project_func_frame:
  "IS_HEALTHY (fst (test_project_func core s args kwargs)) = IS_HEALTHY s
   \<and> WORKING_DIRECTORY (fst (test_project_func core s args kwargs)) = WORKING_DIRECTORY s"
  by (simp add: test_project_func_def invoke_frame split: sum.splits list.splits)

lemma tool_guard_frame:
  assumes "\<And>kw. IS_HEALTHY (fst (func s args kw)) = IS_HEALTHY s
              \<and> WORKING_DIRECTORY (fst (func s args kw)) = WORKING_DIRECTORY s"
  shows "IS_HEALTHY (fst (tool_guard func s args kwargs)) = IS_HEALTHY s
       \<and> WORKING_DIRECTORY (fst (tool_guard func s args kwargs)) = WORKING_DIRECTORY s"
  using assms by (simp add: tool_guard_def)

lemma gated_tools_frame:
  "IS_HEALTHY (fst (list_presets core s args kwargs)) = IS_HEALTHY s
   \<and> WORKING_DIRECTORY (fst (list_presets core s args kwargs)) = WORKING_DIRECTORY s"
  "IS_HEALTHY (fst (create_project core s args kwargs)) = IS_HEALTHY s
   \<and> WORKING_DIRECTORY (fst (create_project core s args kwargs)) = WORKING_DIRECTORY s"
  "IS_HEALTHY (fst (build_project core s args kwargs)) = IS_HEALTHY s
   \<and> WORKING_DIRECTORY (fst (build_project core s args kwargs)) = WORKING_DIRECTORY s"
  "IS_HEALTHY (fst (test_project core s args kwargs)) = IS_HEALTHY s
   \<and> WORKING_DIRECTORY (fst (test_project core s args kwargs)) = WORKING_DIRECTORY s"
  unfolding list_presets_def create_project_def build_project_def test_project_def
  by (rule tool_guard_frame, rule list_presets_func_frame create_project_func_frame
      build_project_func_frame test_project_func_frame)+

lemma serve_frame:
  "\<not> is_health_check r \<Longrightarrow>
   IS_HEALTHY (fst (serve core s r)) = IS_HEALTHY s
   \<and> WORKING_DIRECTORY (fst (serve core s r)) = WORKING_DIRECTORY s"
  by (cases r) (simp_all add: gated_tools_frame)

lemma session_frame:
  "\<forall>cr \<in> set rs. \<not> is_health_check (snd cr) \<Longrightarrow>
   IS_HEALTHY (session s rs) = IS_HEALTHY s \<and> WORKING_DIRECTORY (session s rs) = WORKING_DIRECTORY s"
proof (induction rs arbitrary: s)
  case Nil
  then show ?case by simp
next
  case (Cons cr rs)
  obtain core r where cr: "cr = (core, r)" by (cases cr)
  with Cons.prems have "\<not> is_health_check r" by simp
  from serve_frame[OF this] Cons.IH[of "fst (serve core s r)"] Cons.prems cr
  show ?case by simp
qed

text \<open>
  C3. A call of \<^verbatim>\<open>list_presets\<close>, \<^verbatim>\<open>create_project\<close>, \<^verbatim>\<open>build_project\<close> or
  \<^verbatim>\<open>test_project\<close>, in any state and with any arguments, leaves \<^verbatim>\<open>IS_HEALTHY\<close> and
  \<^verbatim>\<open>WORKING_DIRECTORY\<close> as they were; hence so does every session without a health check.
\<close>

theorem gated_tools_leave_session_state:
  "(\<forall>tool \<in> set [list_presets core, create_project core, build_project core, test_project core].
      IS_HEALTHY (fst (tool s args kwargs)) = IS_HEALTHY s
    \<and> WORKING_DIRECTORY (fst (tool s args kwargs)) = WORKING_DIRECTORY s)
   \<and> ((\<forall>cr \<in> set rs. \<not> is_health_check (snd cr)) \<longrightarrow>
        IS_HEALTHY (session s rs) = IS_HEALTHY s
      \<and> WORKING_DIRECTORY (session s rs) = WORKING_DIRECTORY s)"
  using session_frame [of rs s] by (simp add: gated_tools_frame)

text \<open>A build on a healthy session reaches the core module and changes neither global.\<close>

theorem gated_tools_leave_session_state_witness:
  "fst (build_project (core_returning (PyDict [(''summary'', PyStr ''Built'')]))
     \<lparr>WORKING_DIRECTORY = PyStr ''/tmp/proj'', IS_HEALTHY = PyBool True, core_calls = []\<rparr>
     [PyObj 0] [(''preset'', PyStr ''debug''), (''working_dir'', PyStr ''/elsewhere'')])
   = \<lparr>WORKING_DIRECTORY = PyStr ''/tmp/proj'', IS_HEALTHY = PyBool True,
      core_calls = [CoreBuildProject (PyStr ''/tmp/proj'') (PyStr ''debug'') PyNone (PyBool False) PyNone]\<rparr>
   \<and> IS_HEALTHY (session \<lparr>WORKING_DIRECTORY = PyStr ''/tmp/proj'', IS_HEALTHY = PyBool True, core_calls = []\<rparr>
        [(core_returning (PyList [PyStr ''debug'']), ListPresets [PyObj 0] []),
         (core_returning (PyDict [(''summary'', PyStr ''Built'')]),
          BuildProject [PyObj 0] [(''preset'', PyStr ''debug'')])]) = PyBool True
   \<and> WORKING_DIRECTORY (session \<lparr>WORKING_DIRECTORY = PyStr ''/tmp/proj'', IS_HEALTHY = PyBool True, core_calls = []\<rparr>
        [(core_returning (PyList [PyStr ''debug'']), ListPresets [PyObj 0] []),
         (core_returning (PyDict [(''summary'', PyStr ''Built'')]),
          BuildProject [PyObj 0] [(''preset'', PyStr ''debug'')])]) = PyStr ''/tmp/proj''"
proof -
  have run: "fst (build_project (core_returning (PyDict [(''summary'', PyStr ''Built'')]))
     \<lparr>WORKING_DIRECTORY = PyStr ''/tmp/proj'', IS_HEALTHY = PyBool True, core_calls = []\<rparr>
     [PyObj 0] [(''preset'', PyStr ''debug''), (''working_dir'', PyStr ''/elsewhere'')])
   = \<lparr>WORKING_DIRECTORY = PyStr ''/tmp/proj'', IS_HEALTHY = PyBool True,
      core_calls = [CoreBuildProject (PyStr ''/tmp/proj'') (PyStr ''debug'') PyNone (PyBool False) PyNone]\<rparr>"
    by (simp add: build_project_def tool_guard_def build_project_func_def bind_args_def invoke_def)
  show ?thesis
    using run gated_tools_leave_session_state
      [of "core_returning (PyDict [])"
          "\<lparr>WORKING_DIRECTORY = PyStr ''/tmp/proj'', IS_HEALTHY = PyBool True, core_calls = []\<rparr>"
          "[]" "[]"
          "[(core_returning (PyList [PyStr ''debug'']), ListPresets [PyObj 0] []),
            (core_returning (PyDict [(''summary'', PyStr ''Built'')]),
             BuildProject [PyObj 0] [(''preset'', PyStr ''debug'')])]"]
    by simp
qed

text \<open>
  C4. The module starts with \<^verbatim>\<open>IS_HEALTHY = False\<close>, \<^verbatim>\<open>WORKING_DIRECTORY = None\<close> and no
  call made; \<^verbatim>\<open>main\<close> without a working directory leaves that state; and each of the four
  gated tools, called on it, returns the failure envelope of the gate and leaves it.
\<close>

theorem initial_state_is_gated:
  "IS_HEALTHY initial_state = PyBool False
   \<and> WORKING_DIRECTORY initial_state = PyNone
   \<and> core_calls initial_state = []
   \<and> main core abspath initial_state None = (initial_state, Inr ())
   \<and> (\<forall>tool \<in> set [list_presets core, create_project core, build_project core, test_project core].
        tool initial_state args kwargs =
          (initial_state,
           Inr (PyDict [(''summary'', PyStr ''Server is not in a healthy state.''),
                        (''errors'', PyList [PyDict [(''message'', PyStr ''Run health_check first.''),
                                                     (''severity'', PyStr ''error'')]])])))"
proof -
  have "\<not> truthy (IS_HEALTHY initial_state)"
    by (simp add: initial_state_def)
  then show ?thesis
    by (simp add: list_presets_def create_project_def build_project_def test_project_def
        tool_guard_unhealthy main_without_directory)
      (simp add: initial_state_def)
qed

text \<open>Listing the presets before any health check.\<close>

theorem initial_state_is_gated_witness:
  "list_presets (core_returning (PyList [PyStr ''debug'', PyStr ''release'']))
     \<lparr>WORKING_DIRECTORY = PyNone, IS_HEALTHY = PyBool False, core_calls = []\<rparr> [PyObj 0] []
   = (\<lparr>WORKING_DIRECTORY = PyNone, IS_HEALTHY = PyBool False, core_calls = []\<rparr>,
      Inr (PyDict [(''summary'', PyStr ''Server is not in a healthy state.''),
                   (''errors'', PyList [PyDict [(''message'', PyStr ''Run health_check first.''),
                                                (''severity'', PyStr ''error'')]])]))"
  using initial_state_is_gated [of "core_returning (PyList [PyStr ''debug'', PyStr ''release''])"
      id "[PyObj 0]" "[]"]
  by (simp add: initial_state_def)

subsection \<open>The working directory\<close>

text \<open>
  Past the gate, a tool either raises while binding its arguments, having called
  nothing, or makes exactly one call into the core module, whose working directory is
  the session's. A working directory passed by keyword is replaced.
\<close>

lemma gated_calls_forward:
  assumes "truthy (IS_HEALTHY s)"
  shows "(\<exists>c. list_presets core s args kwargs = invoke core s c \<and> call_working_dir c = WORKING_DIRECTORY s)
         \<or> (\<exists>e. list_presets core s args kwargs = (s, Inl e))"
    and "(\<exists>c. create_project core s args kwargs = invoke core s c \<and> call_working_dir c = WORKING_DIRECTORY s)
         \<or> (\<exists>e. create_project core s args kwargs = (s, Inl e))"
    and "(\<exists>c. build_project core s args kwargs = invoke core s c \<and> call_working_dir c = WORKING_DIRECTORY s)
         \<or> (\<exists>e. build_project core s args kwargs = (s, Inl e))"
    and "(\<exists>c. test_project core s args kwargs = invoke core s c \<and> call_working_dir c = WORKING_DIRECTORY s)
         \<or> (\<exists>e. test_project core s args kwargs = (s, Inl e))"
proof -
  let ?kw = "AList.update ''working_dir'' (WORKING_DIRECTORY s) kwargs"
  have kw: "map_of ?kw ''working_dir'' = Some (WORKING_DIRECTORY s)"
    by (rule map_of_update_working_dir)
  from list_presets_func_calls [OF kw, of core s args]
  show "(\<exists>c. list_presets core s args kwargs = invoke core s c \<and> call_working_dir c = WORKING_DIRECTORY s)
         \<or> (\<exists>e. list_presets core s args kwargs = (s, Inl e))"
    unfolding list_presets_def tool_guard_healthy [OF assms] by (metis call_working_dir.simps(2))
  from create_project_func_calls [OF kw, of core s args]
  show "(\<exists>c. create_project core s args kwargs = invoke core s c \<and> call_working_dir c = WORKING_DIRECTORY s)
         \<or> (\<exists>e. create_project core s args kwargs = (s, Inl e))"
    unfolding create_project_def tool_guard_healthy [OF assms] by (metis call_working_dir.simps(3))
  from build_project_func_calls [OF kw, of core s args]
  show "(\<exists>c. build_project core s args kwargs = invoke core s c \<and> call_working_dir c = WORKING_DIRECTORY s)
         \<or> (\<exists>e. build_project core s args kwargs = (s, Inl e))"
    unfolding build_project_def tool_guard_healthy [OF assms] by (metis call_working_dir.simps(4))
  from test_project_func_calls [OF kw, of core s args]
  show "(\<exists>c. test_project core s args kwargs = invoke core s c \<and> call_working_dir c = WORKING_DIRECTORY s)
         \<or> (\<exists>e. test_project core s args kwargs = (s, Inl e))"
    unfolding test_project_def tool_guard_healthy [OF assms] by (metis call_working_dir.simps(5))
qed

lemma gated_calls_override:
  assumes "truthy (IS_HEALTHY s)"
  shows "list_presets core s [ctx] [(''working_dir'', w)] =
           invoke core s (CoreListPresets (WORKING_DIRECTORY s))"
    and "create_project core s [ctx] [(''working_dir'', w), (''preset'', p)] =
           invoke core s (CoreCreateProject (WORKING_DIRECTORY s) p PyNone)"
    and "build_project core s [ctx] [(''working_dir'', w), (''preset'', p)] =
           invoke core s (CoreBuildProject (WORKING_DIRECTORY s) p PyNone (PyBool False) PyNone)"
    and "test_project core s [ctx] [(''working_dir'', w), (''preset'', p)] =
           invoke core s (CoreTestProject (WORKING_DIRECTORY s) p PyNone (PyBool False) PyNone)"
  using assms
  by (simp_all add: list_presets_def create_project_def build_project_def test_project_def
      tool_guard_def list_presets_func_def create_project_func_def build_project_func_def
      test_project_func_def bind_args_def)

text \<open>
  C8. In a healthy state, each of the four gated tools forwards the session's
  \<^verbatim>\<open>WORKING_DIRECTORY\<close> to the core module as the working directory: whatever the
  arguments, a call either reaches the core module once, with that directory, or raises
  before reaching it; and a call that supplies its own \<^verbatim>\<open>working_dir\<close> by keyword reaches
  the core module with the session's directory in its place.
\<close>

theorem gate_forwards_session_directory:
  assumes "truthy (IS_HEALTHY s)"
  shows "(\<forall>tool \<in> set [list_presets core, create_project core, build_project core, test_project core].
            (\<exists>c. tool s args kwargs = invoke core s c \<and> call_working_dir c = WORKING_DIRECTORY s)
          \<or> (\<exists>e. tool s args kwargs = (s, Inl e)))
       \<and> list_presets core s [ctx] [(''working_dir'', w)] =
           invoke core s (CoreListPresets (WORKING_DIRECTORY s))
       \<and> create_project core s [ctx] [(''working_dir'', w), (''preset'', p)] =
           invoke core s (CoreCreateProject (WORKING_DIRECTORY s) p PyNone)
       \<and> build_project core s [ctx] [(''working_dir'', w), (''preset'', p)] =
           invoke core s (CoreBuildProject (WORKING_DIRECTORY s) p PyNone (PyBool False) PyNone)
       \<and> test_project core s [ctx] [(''working_dir'', w), (''preset'', p)] =
           invoke core s (CoreTestProject (WORKING_DIRECTORY s) p PyNone (PyBool False) PyNone)"
  using gated_calls_forward [OF assms, of core args kwargs] gated_calls_override [OF assms]
  by simp

text \<open>Tests asked for in \<^verbatim>\<open>/elsewhere\<close> run in the session's \<^verbatim>\<open>/tmp/proj\<close>.\<close>

theorem gate_forwards_session_directory_witness:
  "truthy (IS_HEALTHY \<lparr>WORKING_DIRECTORY = PyStr ''/tmp/proj'', IS_HEALTHY = PyBool True, core_calls = []\<rparr>)
   \<and> test_project (core_returning (PyDict [(''summary'', PyStr ''Tests passed'')]))
       \<lparr>WORKING_DIRECTORY = PyStr ''/tmp/proj'', IS_HEALTHY = PyBool True, core_calls = []\<rparr>
       [PyObj 0] [(''working_dir'', PyStr ''/elsewhere''), (''preset'', PyStr ''debug'')]
     = (\<lparr>WORKING_DIRECTORY = PyStr ''/tmp/proj'', IS_HEALTHY = PyBool True,
         core_calls = [CoreTestProject (PyStr ''/tmp/proj'') (PyStr ''debug'') PyNone (PyBool False) PyNone]\<rparr>,
        Inr (PyDict [(''summary'', PyStr ''Tests passed'')]))"
  using gate_forwards_session_directory
    [of "\<lparr>WORKING_DIRECTORY = PyStr ''/tmp/proj'', IS_HEALTHY = PyBool True, core_calls = []\<rparr>"
        "core_returning (PyDict [(''summary'', PyStr ''Tests passed'')])" "[]" "[]"
        "PyObj 0" "PyStr ''/elsewhere''" "PyStr ''debug''"]
  by (simp add: invoke_def core_returning_def)

lemma health_check_keeps_truthy_directory:
  "truthy (WORKING_DIRECTORY s) \<Longrightarrow> truthy (WORKING_DIRECTORY (fst (health_check core s ctx working_dir)))"
  by (simp add: health_check_def invoke_def update_state_fields split: sum.splits)

lemma serve_keeps_truthy_directory:
  "truthy (WORKING_DIRECTORY s) \<Longrightarrow> truthy (WORKING_DIRECTORY (fst (serve core s r)))"
  by (cases r) (simp_all add: health_check_keeps_truthy_directory gated_tools_frame)

lemma session_keeps_truthy_directory:
  "truthy (WORKING_DIRECTORY s) \<Longrightarrow> truthy (WORKING_DIRECTORY (session s rs))"
proof (induction rs arbitrary: s)
  case Nil
  then show ?case by simp
next
  case (Cons cr rs)
  obtain core r where cr: "cr = (core, r)" by (cases cr)
  from Cons.prems have "truthy (WORKING_DIRECTORY (fst (serve core s r)))"
    by (rule serve_keeps_truthy_directory)
  then have "truthy (WORKING_DIRECTORY (session (fst (serve core s r)) rs))"
    by (rule Cons.IH)
  with cr show ?case by simp
qed

text \<open>
  C9. \<^verbatim>\<open>update_state\<close> assigns the working directory only when it is given a truthy one;
  a health check whose result has no working directory, or \<^verbatim>\<open>None\<close>, or the empty
  string, leaves the stored directory in place; a stored truthy directory stays truthy
  through every session. A healthy flag does not imply a stored directory: after a
  healthy result without a directory on the initial state, the gate is open and the
  gated tools call the core module with \<^verbatim>\<open>None\<close> as the working directory.
\<close>

theorem working_directory_never_cleared:
  "(WORKING_DIRECTORY (update_state s healthy wd) = (if truthy wd then wd else WORKING_DIRECTORY s))
   \<and> (core (CoreHealthCheck working_dir) = Inr (PyDict r)
        \<and> map_of r ''working_directory'' \<in> {None, Some PyNone, Some (PyStr [])} \<longrightarrow>
        WORKING_DIRECTORY (fst (health_check core s ctx working_dir)) = WORKING_DIRECTORY s)
   \<and> (truthy (WORKING_DIRECTORY s) \<longrightarrow> truthy (WORKING_DIRECTORY (session s rs)))
   \<and> (let s1 = fst (health_check
                      (core_returning (PyDict [(''is_healthy'', PyBool True), (''working_directory'', PyNone)]))
                      initial_state ctx PyNone)
       in truthy (IS_HEALTHY s1) \<and> WORKING_DIRECTORY s1 = PyNone
        \<and> list_presets core s1 [ctx] [] = invoke core s1 (CoreListPresets PyNone)
        \<and> build_project core s1 [ctx] [(''preset'', p)] =
            invoke core s1 (CoreBuildProject PyNone p PyNone (PyBool False) PyNone))"
proof (intro conjI impI)
  show "WORKING_DIRECTORY (update_state s healthy wd) = (if truthy wd then wd else WORKING_DIRECTORY s)"
    by (rule update_state_fields)
next
  assume "core (CoreHealthCheck working_dir) = Inr (PyDict r)
        \<and> map_of r ''working_directory'' \<in> {None, Some PyNone, Some (PyStr [])}"
  then show "WORKING_DIRECTORY (fst (health_check core s ctx working_dir)) = WORKING_DIRECTORY s"
    by (auto simp: health_check_with_dict update_state_fields)
next
  assume "truthy (WORKING_DIRECTORY s)"
  then show "truthy (WORKING_DIRECTORY (session s rs))"
    by (rule session_keeps_truthy_directory)
next
  have s1: "fst (health_check
                      (core_returning (PyDict [(''is_healthy'', PyBool True), (''working_directory'', PyNone)]))
                      initial_state ctx PyNone)
            = \<lparr>WORKING_DIRECTORY = PyNone, IS_HEALTHY = PyBool True, core_calls = [CoreHealthCheck PyNone]\<rparr>"
    by (simp add: health_check_def invoke_def core_returning_def update_state_def initial_state_def)
  show "let s1 = fst (health_check
                      (core_returning (PyDict [(''is_healthy'', PyBool True), (''working_directory'', PyNone)]))
                      initial_state ctx PyNone)
       in truthy (IS_HEALTHY s1) \<and> WORKING_DIRECTORY s1 = PyNone
        \<and> list_presets core s1 [ctx] [] = invoke core s1 (CoreListPresets PyNone)
        \<and> build_project core s1 [ctx] [(''preset'', p)] =
            invoke core s1 (CoreBuildProject PyNone p PyNone (PyBool False) PyNone)"
    unfolding s1 Let_def
    by (simp add: list_presets_def build_project_def tool_guard_def list_presets_func_def
        build_project_func_def bind_args_def)
qed

text \<open>Two checks without a directory after \<^verbatim>\<open>/tmp/proj\<close> was stored.\<close>

theorem working_directory_never_cleared_witness:
  "core_returning (PyDict [(''is_healthy'', PyBool False), (''working_directory'', PyNone)])
     (CoreHealthCheck (PyStr ''/missing''))
     = Inr (PyDict [(''is_healthy'', PyBool False), (''working_directory'', PyNone)])
   \<and> map_of [(''is_healthy'', PyBool False), (''working_directory'', PyNone)] ''working_directory''
     = Some PyNone
   \<and> truthy (WORKING_DIRECTORY \<lparr>WORKING_DIRECTORY = PyStr ''/tmp/proj'', IS_HEALTHY = PyBool True, core_calls = []\<rparr>)
   \<and> WORKING_DIRECTORY (fst (health_check
        (core_returning (PyDict [(''is_healthy'', PyBool False), (''working_directory'', PyNone)]))
        \<lparr>WORKING_DIRECTORY = PyStr ''/tmp/proj'', IS_HEALTHY = PyBool True, core_calls = []\<rparr>
        (PyObj 0) (PyStr ''/missing''))) = PyStr ''/tmp/proj''
   \<and> truthy (WORKING_DIRECTORY (session
        \<lparr>WORKING_DIRECTORY = PyStr ''/tmp/proj'', IS_HEALTHY = PyBool True, core_calls = []\<rparr>
        [(core_returning (PyDict [(''is_healthy'', PyBool False), (''working_directory'', PyNone)]),
          HealthCheck (PyObj 0) (PyStr ''/missing'')),
         (core_returning (PyDict [(''is_healthy'', PyBool True), (''working_directory'', PyStr [])]),
          HealthCheck (PyObj 0) (PyStr []))]))"
  using working_directory_never_cleared
    [of "\<lparr>WORKING_DIRECTORY = PyStr ''/tmp/proj'', IS_HEALTHY = PyBool True, core_calls = []\<rparr>"
        "PyBool False" PyNone
        "core_returning (PyDict [(''is_healthy'', PyBool False), (''working_directory'', PyNone)])"
        "PyStr ''/missing''"
        "[(''is_healthy'', PyBool False), (''working_directory'', PyNone)]"
        "PyObj 0"
        "[(core_returning (PyDict [(''is_healthy'', PyBool False), (''working_directory'', PyNone)]),
          HealthCheck (PyObj 0) (PyStr ''/missing'')),
         (core_returning (PyDict [(''is_healthy'', PyBool True), (''working_directory'', PyStr [])]),
          HealthCheck (PyObj 0) (PyStr []))]"]
  by (simp add: core_returning_def)

subsection \<open>The flags of the configure invocation\<close>

lemma foldl_append_define:
  "foldl append_define arguments cmake_defines =
     arguments @ map (\<lambda>(k, v). ''-D'' @ k @ ''='' @ v) cmake_defines"
  by (induction cmake_defines arbitrary: arguments) (simp_all add: append_define_def case_prod_beta)

lemma define_flags_all:
  "filter is_define_flag (map (\<lambda>(k, v). ''-D'' @ k @ ''='' @ v) cmake_defines) =
     map (\<lambda>(k, v). ''-D'' @ k @ ''='' @ v) cmake_defines"
  by (induction cmake_defines) (auto simp: is_define_flag_def)

text \<open>
  C7. For defines with \<open>N\<close> entries, the arguments are \<^verbatim>\<open>--preset\<close>, the preset and then
  exactly \<open>N\<close> flags, the \<open>i\<close>-th being \<^verbatim>\<open>-D\<close>, the \<open>i\<close>-th key, \<^verbatim>\<open>=\<close> and the \<open>i\<close>-th
  value: one per entry, in the order of the entries. Unless the preset's own name
  begins with \<^verbatim>\<open>-D\<close>, these are all the arguments that begin with \<^verbatim>\<open>-D\<close>.
\<close>

theorem configure_has_one_flag_per_define:
  "configure_arguments preset cmake_defines =
     [''--preset'', preset] @ map (\<lambda>(k, v). ''-D'' @ k @ ''='' @ v) cmake_defines
   \<and> length (filter is_define_flag (drop 2 (configure_arguments preset cmake_defines))) = length cmake_defines
   \<and> (\<forall>i < length cmake_defines.
        configure_arguments preset cmake_defines ! (2 + i) =
          ''-D'' @ fst (cmake_defines ! i) @ ''='' @ snd (cmake_defines ! i))
   \<and> length (configure_arguments preset cmake_defines) = 2 + length cmake_defines
   \<and> (\<not> is_define_flag preset \<longrightarrow>
        length (filter is_define_flag (configure_arguments preset cmake_defines)) = length cmake_defines)"
  by (simp add: configure_arguments_def foldl_append_define define_flags_all case_prod_beta
      is_define_flag_def)

text \<open>The preset \<^verbatim>\<open>debug\<close> with two defines.\<close>

theorem configure_has_one_flag_per_define_witness:
  "\<not> is_define_flag ''debug''
   \<and> configure_arguments ''debug'' [(''FOO'', ''1''), (''BAR'', ''x y'')] =
       [''--preset'', ''debug'', ''-DFOO=1'', ''-DBAR=x y'']
   \<and> length (filter is_define_flag (configure_arguments ''debug'' [(''FOO'', ''1''), (''BAR'', ''x y'')])) = 2"
  using configure_has_one_flag_per_define [of "''debug''" "[(''FOO'', ''1''), (''BAR'', ''x y'')]"]
  by (simp add: is_define_flag_def)

end
